theory Spec2Isabelle
  imports Main
begin

section \<open>JSON values and the JavaScript operators the handlers use\<close>

text \<open>
  A request body is what \<open>express.json()\<close> parsed: a JSON object. A property value is a
  JSON value; reading a property the object does not have gives \<open>undefined\<close>, which is
  \<open>None\<close> here. JSON numbers are only tested for being zero and compared, never
  computed with, so they are integers here.
\<close>

datatype json =
    JNull
  | JBool bool
  | JNum int
  | JStr string
  | JArr "json list"
  | JObj "(string \<times> json) list"

text \<open>An object is its properties; the order of the keys is not modelled.\<close>

type_synonym obj = "string \<rightharpoonup> json"

text \<open>
  \<open>!v\<close>: \<open>undefined\<close>, \<open>null\<close>, \<open>false\<close>, \<open>0\<close> and the empty string are falsy, everything
  else (arrays and objects too) is truthy.
\<close>

fun falsy :: "json option \<Rightarrow> bool" where
  "falsy None = True"
| "falsy (Some JNull) = True"
| "falsy (Some (JBool b)) = (b = False)"
| "falsy (Some (JNum n)) = (n = 0)"
| "falsy (Some (JStr s)) = (s = [])"
| "falsy (Some (JArr xs)) = False"
| "falsy (Some (JObj kvs)) = False"

text \<open>
  \<open>a === b\<close>. Primitives are compared by value. Arrays and objects are compared by
  reference: a value parsed from one request is never the object parsed from another,
  and the handlers only compare a stored value with one of the current request.
\<close>

fun strict_eq :: "json option \<Rightarrow> json option \<Rightarrow> bool" where
  "strict_eq None None = True"
| "strict_eq (Some JNull) (Some JNull) = True"
| "strict_eq (Some (JBool a)) (Some (JBool b)) = (a = b)"
| "strict_eq (Some (JNum a)) (Some (JNum b)) = (a = b)"
| "strict_eq (Some (JStr a)) (Some (JStr b)) = (a = b)"
| "strict_eq v w = False"

text \<open>\<open>v || null\<close>\<close>

fun or_null :: "json option \<Rightarrow> json" where
  "or_null None = JNull"
| "or_null (Some v) = (if falsy (Some v) then JNull else v)"

text \<open>\<open>Array.prototype.findIndex\<close>: the first index that satisfies the test; \<open>-1\<close> is \<open>None\<close>.\<close>

fun findIndex :: "('a \<Rightarrow> bool) \<Rightarrow> 'a list \<Rightarrow> nat option" where
  "findIndex P [] = None"
| "findIndex P (x # xs) = (if P x then Some 0 else map_option Suc (findIndex P xs))"

text \<open>\<open>xs.some(p => p.id === v)\<close> and \<open>xs.findIndex(p => p.id === req.params.id)\<close>;
  a route parameter is a string.\<close>

definition has_id :: "obj list \<Rightarrow> json option \<Rightarrow> bool" where
  "has_id xs v = list_ex (\<lambda>p. strict_eq (p ''id'') v) xs"

definition index_of_id :: "obj list \<Rightarrow> string \<Rightarrow> nat option" where
  "index_of_id xs rid = findIndex (\<lambda>p. strict_eq (p ''id'') (Some (JStr rid))) xs"

text \<open>\<open>xs.splice(index, 1)\<close>\<close>

definition splice1 :: "'a list \<Rightarrow> nat \<Rightarrow> 'a list" where
  "splice1 xs index = take index xs @ drop (Suc index) xs"

text \<open>
  A template literal converts an interpolated value to a string. For a primitive
  (\<open>undefined\<close> included) that never fails. An object parsed from JSON is converted through
  its \<open>toString\<close> and then its \<open>valueOf\<close>: an own \<open>toString\<close> property, which JSON cannot make
  a function, hides \<open>Object.prototype.toString\<close>, and \<open>valueOf\<close> gives back the object, so
  the conversion throws \<open>TypeError\<close> exactly when the object has a \<open>toString\<close> key. An array
  is joined: \<open>null\<close> prints as the empty string, every other element is converted in turn.
\<close>

fun to_string_throws :: "json \<Rightarrow> bool" where
  "to_string_throws (JObj kvs) = list_ex (\<lambda>kv. fst kv = ''toString'') kvs"
| "to_string_throws (JArr xs) = list_ex to_string_throws xs"
| "to_string_throws v = False"

definition interpolation_throws :: "json option \<Rightarrow> bool" where
  "interpolation_throws v = (case v of None \<Rightarrow> False | Some w \<Rightarrow> to_string_throws w)"

text \<open>The decimal digits of a number, as a template literal prints \<open>length + 1\<close>.\<close>

definition digit :: "nat \<Rightarrow> char" where
  "digit d = ''0123456789'' ! d"

fun string_of_nat :: "nat \<Rightarrow> string" where
  "string_of_nat n =
     (if n < 10 then [digit n] else string_of_nat (n div 10) @ [digit (n mod 10)])"

declare string_of_nat.simps [simp del]

section \<open>The three stores and the responses\<close>

record db =
  patients :: "obj list"
  providers :: "obj list"
  appointments :: "obj list"

text \<open>
  A response is the HTTP status and the body. An error body is
  \<open>{ message, code }\<close>; only its code is modelled, and whether building its message
  throws. \<open>Uncaught\<close> is a handler that threw before it sent a body: the status is the one
  it had set on the response, and what the client receives is the page of the
  framework's error handler, which is not JSON and carries no code.
\<close>

datatype body = Records "obj list" | Record obj | Error string | Empty | Uncaught

type_synonym response = "nat \<times> body"

definition seeded :: db where
  "seeded = \<lparr>
     patients =
       [[''id'' \<mapsto> JStr ''pat1'', ''firstName'' \<mapsto> JStr ''Frank'',
         ''lastName'' \<mapsto> JStr ''White'', ''dateOfBirth'' \<mapsto> JStr ''1985-03-20'',
         ''contactNumber'' \<mapsto> JStr ''555-555-555'', ''email'' \<mapsto> JStr ''frank@aol.com''],
        [''id'' \<mapsto> JStr ''pat2'', ''firstName'' \<mapsto> JStr ''Bob'',
         ''lastName'' \<mapsto> JStr ''Johnson'', ''dateOfBirth'' \<mapsto> JStr ''1992-11-05'',
         ''contactNumber'' \<mapsto> JStr ''555-333-4444'', ''email'' \<mapsto> JStr ''bob@aol.com'']],
     providers =
       [[''id'' \<mapsto> JStr ''prov1'', ''firstName'' \<mapsto> JStr ''Dr. Emily'',
         ''lastName'' \<mapsto> JStr ''White'', ''specialty'' \<mapsto> JStr ''General Practice'',
         ''contactNumber'' \<mapsto> JStr ''555-777-8888'',
         ''email'' \<mapsto> JStr ''emily.w@example.com''],
        [''id'' \<mapsto> JStr ''prov2'', ''firstName'' \<mapsto> JStr ''Dr. Michael'',
         ''lastName'' \<mapsto> JStr ''Green'', ''specialty'' \<mapsto> JStr ''Pediatrics'',
         ''contactNumber'' \<mapsto> JStr ''555-999-0000'',
         ''email'' \<mapsto> JStr ''michael.g@example.com'']],
     appointments =
       [[''id'' \<mapsto> JStr ''app1'', ''patientId'' \<mapsto> JStr ''pat1'',
         ''providerId'' \<mapsto> JStr ''prov1'', ''date'' \<mapsto> JStr ''2025-06-15T10:00:00Z'',
         ''type'' \<mapsto> JStr ''Check-up'', ''status'' \<mapsto> JStr ''scheduled''],
        [''id'' \<mapsto> JStr ''app2'', ''patientId'' \<mapsto> JStr ''pat2'',
         ''providerId'' \<mapsto> JStr ''prov2'', ''date'' \<mapsto> JStr ''2025-06-16T14:30:00Z'',
         ''type'' \<mapsto> JStr ''Follow-up'', ''status'' \<mapsto> JStr ''scheduled'']] \<rparr>"

section \<open>routes/patients.js\<close>

definition patients_get_all :: "db \<Rightarrow> response \<times> db" where
  "patients_get_all s = ((200, Records (patients s)), s)"

definition patients_get :: "string \<Rightarrow> db \<Rightarrow> response \<times> db" where
  "patients_get rid s =
     (case find (\<lambda>p. strict_eq (p ''id'') (Some (JStr rid))) (patients s) of
        None \<Rightarrow> ((404, Error ''PATIENT_NOT_FOUND''), s)
      | Some patient \<Rightarrow> ((200, Record patient), s))"

definition patients_post :: "obj \<Rightarrow> db \<Rightarrow> response \<times> db" where
  "patients_post b s =
     (if falsy (b ''firstName'') \<or> falsy (b ''lastName'') \<or> falsy (b ''dateOfBirth'')
      then ((400, Error ''INVALID_INPUT''), s)
      else
        let newPatient = Map.empty
              (''id'' \<mapsto> JStr (''pat'' @ string_of_nat (length (patients s) + 1)),
               ''firstName'' := b ''firstName'',
               ''lastName'' := b ''lastName'',
               ''dateOfBirth'' := b ''dateOfBirth'',
               ''contactNumber'' \<mapsto> or_null (b ''contactNumber''),
               ''email'' \<mapsto> or_null (b ''email''))
        in ((201, Record newPatient), s\<lparr>patients := patients s @ [newPatient]\<rparr>))"

definition patients_put :: "string \<Rightarrow> obj \<Rightarrow> db \<Rightarrow> response \<times> db" where
  "patients_put rid b s =
     (case index_of_id (patients s) rid of
        None \<Rightarrow> ((404, Error ''PATIENT_NOT_FOUND''), s)
      | Some index \<Rightarrow>
          let merged = (patients s ! index) ++ b
          in ((200, Record merged), s\<lparr>patients := (patients s)[index := merged]\<rparr>))"

definition patients_delete :: "string \<Rightarrow> db \<Rightarrow> response \<times> db" where
  "patients_delete rid s =
     (case index_of_id (patients s) rid of
        None \<Rightarrow> ((404, Error ''PATIENT_NOT_FOUND''), s)
      | Some index \<Rightarrow> ((204, Empty), s\<lparr>patients := splice1 (patients s) index\<rparr>))"

section \<open>routes/providers.js\<close>

definition providers_get_all :: "db \<Rightarrow> response \<times> db" where
  "providers_get_all s = ((200, Records (providers s)), s)"

definition providers_get :: "string \<Rightarrow> db \<Rightarrow> response \<times> db" where
  "providers_get rid s =
     (case find (\<lambda>p. strict_eq (p ''id'') (Some (JStr rid))) (providers s) of
        None \<Rightarrow> ((404, Error ''PROVIDER_NOT_FOUND''), s)
      | Some provider \<Rightarrow> ((200, Record provider), s))"

definition providers_post :: "obj \<Rightarrow> db \<Rightarrow> response \<times> db" where
  "providers_post b s =
     (if falsy (b ''firstName'') \<or> falsy (b ''lastName'') \<or> falsy (b ''specialty'')
      then ((400, Error ''INVALID_INPUT''), s)
      else
        let newProvider = Map.empty
              (''id'' \<mapsto> JStr (''prov'' @ string_of_nat (length (providers s) + 1)),
               ''firstName'' := b ''firstName'',
               ''lastName'' := b ''lastName'',
               ''specialty'' := b ''specialty'',
               ''contactNumber'' \<mapsto> or_null (b ''contactNumber''),
               ''email'' \<mapsto> or_null (b ''email''))
        in ((201, Record newProvider), s\<lparr>providers := providers s @ [newProvider]\<rparr>))"

definition providers_put :: "string \<Rightarrow> obj \<Rightarrow> db \<Rightarrow> response \<times> db" where
  "providers_put rid b s =
     (case index_of_id (providers s) rid of
        None \<Rightarrow> ((404, Error ''PROVIDER_NOT_FOUND''), s)
      | Some index \<Rightarrow>
          let merged = (providers s ! index) ++ b
          in ((200, Record merged), s\<lparr>providers := (providers s)[index := merged]\<rparr>))"

definition providers_delete :: "string \<Rightarrow> db \<Rightarrow> response \<times> db" where
  "providers_delete rid s =
     (case index_of_id (providers s) rid of
        None \<Rightarrow> ((404, Error ''PROVIDER_NOT_FOUND''), s)
      | Some index \<Rightarrow> ((204, Empty), s\<lparr>providers := splice1 (providers s) index\<rparr>))"

section \<open>routes/appointments.js\<close>

text \<open>
  The module reads the arrays that \<open>patients.js\<close> and \<open>providers.js\<close> export; those
  modules only ever mutate their array in place, so the handlers below see the
  current stores. The two not-found answers are written
  \<open>res.status(400).json({ message: `... ${patientId} ...`, code })\<close>: the status is set
  first, then the message is built, which throws when the payload's value cannot be
  converted to a string.
\<close>

definition appointments_get_all :: "db \<Rightarrow> response \<times> db" where
  "appointments_get_all s = ((200, Records (appointments s)), s)"

definition appointments_get :: "string \<Rightarrow> db \<Rightarrow> response \<times> db" where
  "appointments_get rid s =
     (case find (\<lambda>a. strict_eq (a ''id'') (Some (JStr rid))) (appointments s) of
        None \<Rightarrow> ((404, Error ''APPOINTMENT_NOT_FOUND''), s)
      | Some appt \<Rightarrow> ((200, Record appt), s))"

definition appointments_post :: "obj \<Rightarrow> db \<Rightarrow> response \<times> db" where
  "appointments_post b s =
     (if falsy (b ''patientId'') \<or> falsy (b ''providerId'') \<or> falsy (b ''date'')
          \<or> falsy (b ''type'')
      then ((400, Error ''INVALID_INPUT''), s)
      else if \<not> has_id (patients s) (b ''patientId'')
      then (if interpolation_throws (b ''patientId'') then ((400, Uncaught), s)
            else ((400, Error ''PATIENT_NOT_FOUND''), s))
      else if \<not> has_id (providers s) (b ''providerId'')
      then (if interpolation_throws (b ''providerId'') then ((400, Uncaught), s)
            else ((400, Error ''PROVIDER_NOT_FOUND''), s))
      else
        let newAppointment = Map.empty
              (''id'' \<mapsto> JStr (''app'' @ string_of_nat (length (appointments s) + 1)),
               ''patientId'' := b ''patientId'',
               ''providerId'' := b ''providerId'',
               ''date'' := b ''date'',
               ''type'' := b ''type'',
               ''status'' \<mapsto> JStr ''scheduled'')
        in ((201, Record newAppointment),
            s\<lparr>appointments := appointments s @ [newAppointment]\<rparr>))"

definition appointments_put :: "string \<Rightarrow> obj \<Rightarrow> db \<Rightarrow> response \<times> db" where
  "appointments_put rid b s =
     (case index_of_id (appointments s) rid of
        None \<Rightarrow> ((404, Error ''APPOINTMENT_NOT_FOUND''), s)
      | Some index \<Rightarrow>
          if b ''patientId'' \<noteq> None
             \<and> \<not> has_id (patients s) (b ''patientId'')
          then (if interpolation_throws (b ''patientId'') then ((400, Uncaught), s)
                else ((400, Error ''PATIENT_NOT_FOUND''), s))
          else if b ''providerId'' \<noteq> None
             \<and> \<not> has_id (providers s) (b ''providerId'')
          then (if interpolation_throws (b ''providerId'') then ((400, Uncaught), s)
                else ((400, Error ''PROVIDER_NOT_FOUND''), s))
          else
            let merged = (appointments s ! index) ++ b
            in ((200, Record merged),
                s\<lparr>appointments := (appointments s)[index := merged]\<rparr>))"

definition appointments_delete :: "string \<Rightarrow> db \<Rightarrow> response \<times> db" where
  "appointments_delete rid s =
     (case index_of_id (appointments s) rid of
        None \<Rightarrow> ((404, Error ''APPOINTMENT_NOT_FOUND''), s)
      | Some index \<Rightarrow> ((204, Empty), s\<lparr>appointments := splice1 (appointments s) index\<rparr>))"

section \<open>The server: one request at a time\<close>

datatype resource = Patients | Providers | Appointments

datatype request =
    GetAll resource
  | GetOne resource string
  | Post resource obj
  | Put resource string obj
  | Delete resource string

fun dispatch :: "request \<Rightarrow> db \<Rightarrow> response \<times> db" where
  "dispatch (GetAll Patients) s = patients_get_all s"
| "dispatch (GetOne Patients rid) s = patients_get rid s"
| "dispatch (Post Patients b) s = patients_post b s"
| "dispatch (Put Patients rid b) s = patients_put rid b s"
| "dispatch (Delete Patients rid) s = patients_delete rid s"
| "dispatch (GetAll Providers) s = providers_get_all s"
| "dispatch (GetOne Providers rid) s = providers_get rid s"
| "dispatch (Post Providers b) s = providers_post b s"
| "dispatch (Put Providers rid b) s = providers_put rid b s"
| "dispatch (Delete Providers rid) s = providers_delete rid s"
| "dispatch (GetAll Appointments) s = appointments_get_all s"
| "dispatch (GetOne Appointments rid) s = appointments_get rid s"
| "dispatch (Post Appointments b) s = appointments_post b s"
| "dispatch (Put Appointments rid b) s = appointments_put rid b s"
| "dispatch (Delete Appointments rid) s = appointments_delete rid s"

text \<open>The store of a resource and its not-found code.\<close>

fun store :: "resource \<Rightarrow> db \<Rightarrow> obj list" where
  "store Patients s = patients s"
| "store Providers s = providers s"
| "store Appointments s = appointments s"

fun not_found_code :: "resource \<Rightarrow> string" where
  "not_found_code Patients = ''PATIENT_NOT_FOUND''"
| "not_found_code Providers = ''PROVIDER_NOT_FOUND''"
| "not_found_code Appointments = ''APPOINTMENT_NOT_FOUND''"

text \<open>Requests served one after the other; the state after the last one.\<close>

fun run :: "request list \<Rightarrow> db \<Rightarrow> db" where
  "run [] s = s"
| "run (r # rs) s = run rs (snd (dispatch r s))"

text \<open>The identifiers of a store, in order (\<open>None\<close> for a record without one).\<close>

definition ids :: "obj list \<Rightarrow> json option list" where
  "ids xs = map (\<lambda>r. r ''id'') xs"

section \<open>Facts about the array operations\<close>

lemma findIndex_SomeD:
  "findIndex P xs = Some i \<Longrightarrow> i < length xs \<and> P (xs ! i) \<and> (\<forall>j<i. \<not> P (xs ! j))"
proof (induction xs arbitrary: i)
  case Nil
  then show ?case by simp
next
  case (Cons x xs)
  show ?case
  proof (cases "P x")
    case True
    with Cons.prems show ?thesis by simp
  next
    case False
    with Cons.prems obtain k where k: "findIndex P xs = Some k" "i = Suc k"
      by auto
    from Cons.IH [OF k(1)] False k(2) show ?thesis
      by (auto simp: less_Suc_eq_0_disj)
  qed
qed

lemma findIndex_None_iff: "findIndex P xs = None \<longleftrightarrow> \<not> list_ex P xs"
  by (induction xs) auto

lemma index_of_id_None_iff: "index_of_id xs rid = None \<longleftrightarrow> \<not> has_id xs (Some (JStr rid))"
  by (simp add: index_of_id_def has_id_def findIndex_None_iff)

lemma index_of_id_SomeD:
  "index_of_id xs rid = Some i \<Longrightarrow>
     i < length xs \<and> strict_eq ((xs ! i) ''id'') (Some (JStr rid)) \<and>
     (\<forall>j<i. \<not> strict_eq ((xs ! j) ''id'') (Some (JStr rid)))"
  unfolding index_of_id_def by (drule findIndex_SomeD) simp

lemma findIndex_None_filter: "findIndex P xs = None \<longleftrightarrow> filter P xs = []"
  by (induction xs) auto

lemma filter_splice1:
  "findIndex P xs = Some i \<Longrightarrow> filter P (splice1 xs i) = tl (filter P xs)"
proof (induction xs arbitrary: i)
  case Nil
  then show ?case by simp
next
  case (Cons x xs)
  show ?case
  proof (cases "P x")
    case True
    with Cons.prems show ?thesis by (simp add: splice1_def)
  next
    case False
    with Cons.prems obtain k where k: "findIndex P xs = Some k" "i = Suc k"
      by auto
    from Cons.IH [OF k(1)] False k(2) show ?thesis
      by (simp add: splice1_def)
  qed
qed

lemma length_splice1: "i < length xs \<Longrightarrow> Suc (length (splice1 xs i)) = length xs"
  by (simp add: splice1_def)

lemma has_id_filter:
  "has_id xs v \<longleftrightarrow> filter (\<lambda>p. strict_eq (p ''id'') v) xs \<noteq> []"
  by (simp add: has_id_def list_ex_iff filter_empty_conv)

lemma dispatch_delete:
  "dispatch (Delete k rid) s =
     (case index_of_id (store k s) rid of
        None \<Rightarrow> ((404, Error (not_found_code k)), s)
      | Some i \<Rightarrow> ((204, Empty),
          \<lparr>patients = (if k = Patients then splice1 (patients s) i else patients s),
           providers = (if k = Providers then splice1 (providers s) i else providers s),
           appointments = (if k = Appointments then splice1 (appointments s) i
                           else appointments s)\<rparr>))"
  by (cases k)
    (simp_all add: patients_delete_def providers_delete_def appointments_delete_def
      split: option.splits)

lemma store_after_delete:
  assumes "index_of_id (store k s) rid = Some i"
  shows "store k' (snd (dispatch (Delete k rid) s))
           = (if k' = k then splice1 (store k s) i else store k' s)"
  using assms by (cases k; cases k') (simp_all add: dispatch_delete)

lemma not_falsy_Some: "\<not> falsy v \<Longrightarrow> \<exists>x. v = Some x"
  by (cases v) simp_all

text \<open>
  Against a route parameter, \<open>===\<close> is equality with that string. In a store whose
  identifiers are pairwise distinct, an identifier that occurs names exactly one record.
\<close>

lemma strict_eq_JStr: "strict_eq v (Some (JStr r)) \<longleftrightarrow> v = Some (JStr r)"
proof (cases v)
  case None
  then show ?thesis by simp
next
  case (Some x)
  then show ?thesis by (cases x) auto
qed

lemma distinct_map_filter_le1:
  "distinct (map f xs) \<Longrightarrow> length (filter (\<lambda>p. f p = v) xs) \<le> 1"
proof (induction xs)
  case Nil
  then show ?case by simp
next
  case (Cons x xs)
  show ?case
  proof (cases "f x = v")
    case True
    with Cons.prems have "v \<notin> f ` set xs" by simp
    then have "filter (\<lambda>p. f p = v) xs = []"
      by (auto simp add: filter_empty_conv)
    with True show ?thesis by simp
  next
    case False
    with Cons show ?thesis by simp
  qed
qed

lemma distinct_ids_one_match:
  assumes "distinct (ids xs)" and "has_id xs (Some (JStr rid))"
  shows "length (filter (\<lambda>p. strict_eq (p ''id'') (Some (JStr rid))) xs) = 1"
proof -
  let ?P = "\<lambda>p. strict_eq (p ''id'') (Some (JStr rid))"
  have same: "?P = (\<lambda>p. p ''id'' = Some (JStr rid))"
    by (simp add: strict_eq_JStr)
  from assms(1) have "length (filter (\<lambda>p. p ''id'' = Some (JStr rid)) xs) \<le> 1"
    unfolding ids_def by (rule distinct_map_filter_le1)
  then have "length (filter ?P xs) \<le> 1"
    by (simp only: same)
  moreover from assms(2) have "filter ?P xs \<noteq> []"
    by (simp add: has_id_filter)
  then have "0 < length (filter ?P xs)"
    by simp
  ultimately show ?thesis by linarith
qed

section \<open>The update handlers, seen through the dispatcher\<close>

lemma dispatch_put:
  "dispatch (Put k rid b) s =
     (case index_of_id (store k s) rid of
        None \<Rightarrow> ((404, Error (not_found_code k)), s)
      | Some i \<Rightarrow>
          if k = Appointments \<and> b ''patientId'' \<noteq> None
             \<and> \<not> has_id (patients s) (b ''patientId'')
          then ((400, if interpolation_throws (b ''patientId'') then Uncaught
                      else Error ''PATIENT_NOT_FOUND''), s)
          else if k = Appointments \<and> b ''providerId'' \<noteq> None
             \<and> \<not> has_id (providers s) (b ''providerId'')
          then ((400, if interpolation_throws (b ''providerId'') then Uncaught
                      else Error ''PROVIDER_NOT_FOUND''), s)
          else ((200, Record (store k s ! i ++ b)),
          \<lparr>patients = (if k = Patients then (patients s)[i := patients s ! i ++ b]
                       else patients s),
           providers = (if k = Providers then (providers s)[i := providers s ! i ++ b]
                        else providers s),
           appointments = (if k = Appointments
                           then (appointments s)[i := appointments s ! i ++ b]
                           else appointments s)\<rparr>))"
  by (cases k)
    (simp_all add: patients_put_def providers_put_def appointments_put_def Let_def
      split: option.splits)

lemma store_after_put:
  assumes "index_of_id (store k s) rid = Some i"
  shows "store k' (snd (dispatch (Put k rid b) s)) = store k' s \<or>
         (k' = k \<and> fst (dispatch (Put k rid b) s) = (200, Record (store k s ! i ++ b)) \<and>
          store k' (snd (dispatch (Put k rid b) s)) = (store k s)[i := store k s ! i ++ b])"
  using assms by (cases k; cases k') (simp_all add: dispatch_put)

lemma put_performed:
  assumes "index_of_id (store k s) rid = Some i"
    and "k = Appointments \<longrightarrow>
           (b ''patientId'' = None \<or> has_id (patients s) (b ''patientId'')) \<and>
           (b ''providerId'' = None \<or> has_id (providers s) (b ''providerId''))"
  shows "fst (dispatch (Put k rid b) s) = (200, Record (store k s ! i ++ b))"
    and "store k' (snd (dispatch (Put k rid b) s))
           = (if k' = k then (store k s)[i := store k s ! i ++ b] else store k' s)"
  using assms by (cases k; cases k'; auto simp add: dispatch_put)+

section \<open>Creating an appointment\<close>




text \<open>
  C3. For every payload that passes the presence test and whose \<open>patientId\<close> and
  \<open>providerId\<close> are identifiers of a patient and of a provider, creation answers 201 with
  the new record, which is appended to the appointments; the other stores are as before.
  The record's \<open>id\<close> is \<open>"app"\<close> followed by the store's length plus one, its \<open>status\<close> is
  \<open>"scheduled"\<close>, and its other four fields are the payload's.
\<close>

theorem appointments_post_success:
  assumes "\<not> falsy (b ''patientId'')" and "\<not> falsy (b ''providerId'')"
    and "\<not> falsy (b ''date'')" and "\<not> falsy (b ''type'')"
    and "has_id (patients s) (b ''patientId'')"
    and "has_id (providers s) (b ''providerId'')"
  shows "\<exists>r. appointments_post b s
              = ((201, Record r), s\<lparr>appointments := appointments s @ [r]\<rparr>) \<and>
             r ''id'' = Some (JStr (''app'' @ string_of_nat (length (appointments s) + 1))) \<and>
             r ''status'' = Some (JStr ''scheduled'') \<and>
             r ''patientId'' = b ''patientId'' \<and>
             r ''providerId'' = b ''providerId'' \<and>
             r ''date'' = b ''date'' \<and>
             r ''type'' = b ''type'' \<and>
             dom r = {''id'', ''patientId'', ''providerId'', ''date'', ''type'', ''status''}"
proof -
  from assms(1-4) obtain p q d t where
    vals: "b ''patientId'' = Some p" "b ''providerId'' = Some q"
      "b ''date'' = Some d" "b ''type'' = Some t"
    by (meson not_falsy_Some)
  define r where "r = Map.empty
              (''id'' \<mapsto> JStr (''app'' @ string_of_nat (length (appointments s) + 1)),
               ''patientId'' := b ''patientId'',
               ''providerId'' := b ''providerId'',
               ''date'' := b ''date'',
               ''type'' := b ''type'',
               ''status'' \<mapsto> JStr ''scheduled'')"
  have run: "appointments_post b s
      = ((201, Record r), s\<lparr>appointments := appointments s @ [r]\<rparr>)"
    using assms by (simp add: appointments_post_def Let_def r_def)
  have fields: "r ''id'' = Some (JStr (''app'' @ string_of_nat (length (appointments s) + 1)))"
    "r ''status'' = Some (JStr ''scheduled'')"
    "r ''patientId'' = b ''patientId''" "r ''providerId'' = b ''providerId''"
    "r ''date'' = b ''date''" "r ''type'' = b ''type''"
    by (simp_all add: r_def)
  have "dom r = {''id'', ''patientId'', ''providerId'', ''date'', ''type'', ''status''}"
    unfolding r_def vals by (simp add: insert_commute)
  with run fields show ?thesis by blast
qed

theorem appointments_post_success_witness:
  "\<exists>r. appointments_post
          [''patientId'' \<mapsto> JStr ''pat1'', ''providerId'' \<mapsto> JStr ''prov2'',
           ''date'' \<mapsto> JStr ''2025-07-01T09:00:00Z'', ''type'' \<mapsto> JStr ''Check-up''] seeded
          = ((201, Record r), seeded\<lparr>appointments := appointments seeded @ [r]\<rparr>) \<and>
       r ''id'' = Some (JStr ''app3'') \<and>
       r ''status'' = Some (JStr ''scheduled'') \<and>
       r ''patientId'' = Some (JStr ''pat1'')"
proof -
  let ?b = "[''patientId'' \<mapsto> JStr ''pat1'', ''providerId'' \<mapsto> JStr ''prov2'',
             ''date'' \<mapsto> JStr ''2025-07-01T09:00:00Z'', ''type'' \<mapsto> JStr ''Check-up'']"
  have next_id: "''app'' @ string_of_nat (length (appointments seeded) + 1) = ''app3''"
    by (simp add: seeded_def string_of_nat.simps digit_def)
  have present: "\<not> falsy (?b ''patientId'')" "\<not> falsy (?b ''providerId'')"
    "\<not> falsy (?b ''date'')" "\<not> falsy (?b ''type'')"
    by simp_all
  have resolve: "has_id (patients seeded) (?b ''patientId'')"
    "has_id (providers seeded) (?b ''providerId'')"
    by (simp_all add: has_id_def seeded_def)
  from appointments_post_success [OF present resolve] obtain r where
    r: "appointments_post ?b seeded
          = ((201, Record r), seeded\<lparr>appointments := appointments seeded @ [r]\<rparr>)"
      "r ''id'' = Some (JStr (''app'' @ string_of_nat (length (appointments seeded) + 1)))"
      "r ''status'' = Some (JStr ''scheduled'')"
      "r ''patientId'' = ?b ''patientId''"
    by blast
  from r(2) next_id have "r ''id'' = Some (JStr ''app3'')"
    by simp
  moreover from r(4) have "r ''patientId'' = Some (JStr ''pat1'')"
    by simp
  ultimately show ?thesis
    using r(1) r(3) by blast
qed

section \<open>Updating an appointment\<close>




section \<open>Errors change nothing\<close>

text \<open>
  C5. Whatever the request and the state: when the answer is an error (a status of 400
  or more, or an error body), the three stores after the request are the three stores
  before it.
\<close>

theorem error_leaves_stores_unchanged:
  assumes "400 \<le> fst (fst (dispatch r s)) \<or> (\<exists>c. snd (fst (dispatch r s)) = Error c)"
  shows "snd (dispatch r s) = s"
proof (cases r)
  case (GetAll k)
  then show ?thesis
    by (cases k) (simp_all add: patients_get_all_def providers_get_all_def appointments_get_all_def)
next
  case (GetOne k rid)
  then show ?thesis
    by (cases k)
      (simp_all add: patients_get_def providers_get_def appointments_get_def split: option.splits)
next
  case (Post k b)
  with assms show ?thesis
    by (cases k)
      (auto simp add: patients_post_def providers_post_def appointments_post_def Let_def
        split: if_splits)
next
  case (Put k rid b)
  with assms show ?thesis
    by (cases k)
      (auto simp add: patients_put_def providers_put_def appointments_put_def Let_def
        split: if_splits option.splits)
next
  case (Delete k rid)
  with assms show ?thesis
    by (cases k)
      (auto simp add: patients_delete_def providers_delete_def appointments_delete_def
        split: option.splits)
qed

theorem error_leaves_stores_unchanged_witness:
  "fst (dispatch (Post Patients [''firstName'' \<mapsto> JStr ''X'']) seeded)
     = (400, Error ''INVALID_INPUT'') \<and>
   snd (dispatch (Post Patients [''firstName'' \<mapsto> JStr ''X'']) seeded) = seeded"
proof -
  have answer: "fst (dispatch (Post Patients [''firstName'' \<mapsto> JStr ''X'']) seeded)
     = (400, Error ''INVALID_INPUT'')"
    by (simp add: patients_post_def)
  then have "400 \<le> fst (fst (dispatch (Post Patients [''firstName'' \<mapsto> JStr ''X'']) seeded))
     \<or> (\<exists>c. snd (fst (dispatch (Post Patients [''firstName'' \<mapsto> JStr ''X'']) seeded))
           = Error c)"
    by simp
  from error_leaves_stores_unchanged [OF this] answer show ?thesis
    by simp
qed

section \<open>Creating a patient\<close>

text \<open>
  C7. A required field is missing when the handler's test \<open>!field\<close> holds: the key is
  absent, or its value is \<open>null\<close>, \<open>false\<close>, \<open>0\<close> or the empty string.
  \<^item> When \<open>firstName\<close>, \<open>lastName\<close> or \<open>dateOfBirth\<close> is missing, creation answers 400
    with code \<open>INVALID_INPUT\<close> and changes nothing.
  \<^item> Otherwise it answers 201 with the new record, appended to the patients. The
    record's \<open>id\<close> is \<open>"pat"\<close> followed by the store's length plus one; its three required
    fields are the payload's; \<open>contactNumber\<close> and \<open>email\<close> are \<open>value || null\<close>, which is
    \<open>null\<close> when the payload has no such key.
\<close>

theorem patients_post_create:
  "(falsy (b ''firstName'') \<or> falsy (b ''lastName'') \<or> falsy (b ''dateOfBirth'') \<longrightarrow>
      patients_post b s = ((400, Error ''INVALID_INPUT''), s)) \<and>
   (\<not> (falsy (b ''firstName'') \<or> falsy (b ''lastName'') \<or> falsy (b ''dateOfBirth'')) \<longrightarrow>
      (\<exists>r. patients_post b s = ((201, Record r), s\<lparr>patients := patients s @ [r]\<rparr>) \<and>
           r ''id'' = Some (JStr (''pat'' @ string_of_nat (length (patients s) + 1))) \<and>
           r ''firstName'' = b ''firstName'' \<and>
           r ''lastName'' = b ''lastName'' \<and>
           r ''dateOfBirth'' = b ''dateOfBirth'' \<and>
           r ''contactNumber'' = Some (or_null (b ''contactNumber'')) \<and>
           r ''email'' = Some (or_null (b ''email'')) \<and>
           (b ''contactNumber'' = None \<longrightarrow> r ''contactNumber'' = Some JNull) \<and>
           (b ''email'' = None \<longrightarrow> r ''email'' = Some JNull)))"
  by (auto simp add: patients_post_def Let_def)

theorem patients_post_create_witness:
  "patients_post [''firstName'' \<mapsto> JStr ''X''] seeded
     = ((400, Error ''INVALID_INPUT''), seeded) \<and>
   (\<exists>r. patients_post
          [''firstName'' \<mapsto> JStr ''Alice'', ''lastName'' \<mapsto> JStr ''Smith'',
           ''dateOfBirth'' \<mapsto> JStr ''1990-01-01''] seeded
          = ((201, Record r), seeded\<lparr>patients := patients seeded @ [r]\<rparr>) \<and>
        r ''id'' = Some (JStr ''pat3'') \<and>
        r ''firstName'' = Some (JStr ''Alice'') \<and>
        r ''contactNumber'' = Some JNull \<and>
        r ''email'' = Some JNull)"
proof -
  let ?x = "[''firstName'' \<mapsto> JStr ''X'']"
  let ?b = "[''firstName'' \<mapsto> JStr ''Alice'', ''lastName'' \<mapsto> JStr ''Smith'',
             ''dateOfBirth'' \<mapsto> JStr ''1990-01-01'']"
  have next_id: "''pat'' @ string_of_nat (length (patients seeded) + 1) = ''pat3''"
    by (simp add: seeded_def string_of_nat.simps digit_def)
  have missing: "falsy (?x ''firstName'') \<or> falsy (?x ''lastName'') \<or> falsy (?x ''dateOfBirth'')"
    by simp
  have rejected: "patients_post ?x seeded = ((400, Error ''INVALID_INPUT''), seeded)"
    using patients_post_create [of ?x seeded, THEN conjunct1, THEN mp, OF missing] .
  have present:
    "\<not> (falsy (?b ''firstName'') \<or> falsy (?b ''lastName'') \<or> falsy (?b ''dateOfBirth''))"
    by simp
  from patients_post_create [of ?b seeded, THEN conjunct2, THEN mp, OF present] obtain r where
    r: "patients_post ?b seeded = ((201, Record r), seeded\<lparr>patients := patients seeded @ [r]\<rparr>)"
      "r ''id'' = Some (JStr (''pat'' @ string_of_nat (length (patients seeded) + 1)))"
      "r ''firstName'' = ?b ''firstName''"
      "?b ''contactNumber'' = None \<longrightarrow> r ''contactNumber'' = Some JNull"
      "?b ''email'' = None \<longrightarrow> r ''email'' = Some JNull"
    by (elim exE conjE)
  from r(2) next_id have id3: "r ''id'' = Some (JStr ''pat3'')" by simp
  from r(3) have first: "r ''firstName'' = Some (JStr ''Alice'')" by simp
  from r(4) have contact: "r ''contactNumber'' = Some JNull" by simp
  from r(5) have email: "r ''email'' = Some JNull" by simp
  show ?thesis
    using rejected r(1) id3 first contact email
    by (intro conjI exI [where x = r])
qed

section \<open>Updating a record\<close>

text \<open>
  C6. Let \<open>rid\<close> be the identifier of a record of store \<open>k\<close>, found at index \<open>i\<close>, and
  let a \<open>PUT\<close> with payload \<open>b\<close> answer \<open>resp\<close> and leave the state \<open>s'\<close>.
  \<^item> Whatever the answer, the store keeps its length and every field of the record that
    the payload does not carry keeps its value.
  \<^item> The update is carried out for every payload on patients and providers, and on
    appointments when each of \<open>patientId\<close> and \<open>providerId\<close> is omitted or resolves. Then
    the answer is 200 with the merged record (the old record overlaid with the payload),
    the merged record replaces the old one at its index, the other stores are untouched,
    and every field the payload carries has the payload's value.
  \<^item> With the empty payload the answer is 200 with the record as it was, and the state
    after is the state before.
\<close>

theorem put_shallow_merge:
  assumes "index_of_id (store k s) rid = Some i"
    and "dispatch (Put k rid b) s = (resp, s')"
  shows "length (store k s') = length (store k s) \<and>
         (\<forall>key. b key = None \<longrightarrow> (store k s' ! i) key = (store k s ! i) key) \<and>
         ((k = Appointments \<longrightarrow>
             (b ''patientId'' = None \<or> has_id (patients s) (b ''patientId'')) \<and>
             (b ''providerId'' = None \<or> has_id (providers s) (b ''providerId''))) \<longrightarrow>
            resp = (200, Record (store k s ! i ++ b)) \<and>
            store k s' = (store k s)[i := store k s ! i ++ b] \<and>
            (\<forall>k'. k' \<noteq> k \<longrightarrow> store k' s' = store k' s) \<and>
            (\<forall>key v. b key = Some v \<longrightarrow> (store k s' ! i) key = Some v)) \<and>
         dispatch (Put k rid Map.empty) s = ((200, Record (store k s ! i)), s)"
proof -
  from assms(2) have s': "s' = snd (dispatch (Put k rid b) s)"
    and resp: "resp = fst (dispatch (Put k rid b) s)"
    by simp_all
  have i: "i < length (store k s)"
    using index_of_id_SomeD [OF assms(1)] by simp
  have len: "length (store k s') = length (store k s)"
    using store_after_put [OF assms(1), of k b] by (auto simp add: s')
  have frame: "\<forall>key. b key = None \<longrightarrow> (store k s' ! i) key = (store k s ! i) key"
    using store_after_put [OF assms(1), of k b] i by (auto simp add: s' map_add_def)
  have merged: "resp = (200, Record (store k s ! i ++ b)) \<and>
            store k s' = (store k s)[i := store k s ! i ++ b] \<and>
            (\<forall>k'. k' \<noteq> k \<longrightarrow> store k' s' = store k' s) \<and>
            (\<forall>key v. b key = Some v \<longrightarrow> (store k s' ! i) key = Some v)"
    if "k = Appointments \<longrightarrow>
             (b ''patientId'' = None \<or> has_id (patients s) (b ''patientId'')) \<and>
             (b ''providerId'' = None \<or> has_id (providers s) (b ''providerId''))"
    using put_performed [OF assms(1) that] i by (simp add: s' resp)
  have "dispatch (Put k rid Map.empty) s = ((200, Record (store k s ! i)), s)"
    using assms(1) by (cases k) (simp_all add: dispatch_put)
  with len frame merged show ?thesis by blast
qed

theorem put_shallow_merge_witness:
  "fst (dispatch (Put Patients ''pat1'' [''email'' \<mapsto> JStr ''new@x.com'']) seeded)
     = (200, Record (store Patients seeded ! 0 ++ [''email'' \<mapsto> JStr ''new@x.com''])) \<and>
   (store Patients (snd (dispatch (Put Patients ''pat1'' [''email'' \<mapsto> JStr ''new@x.com''])
      seeded)) ! 0) ''firstName'' = Some (JStr ''Frank'') \<and>
   (store Patients (snd (dispatch (Put Patients ''pat1'' [''email'' \<mapsto> JStr ''new@x.com''])
      seeded)) ! 0) ''email'' = Some (JStr ''new@x.com'') \<and>
   dispatch (Put Patients ''pat1'' Map.empty) seeded
     = ((200, Record (store Patients seeded ! 0)), seeded)"
proof -
  let ?b = "[''email'' \<mapsto> JStr ''new@x.com'']"
  let ?s' = "snd (dispatch (Put Patients ''pat1'' ?b) seeded)"
  have found: "index_of_id (store Patients seeded) ''pat1'' = Some 0"
    by (simp add: index_of_id_def seeded_def)
  have free: "Patients = Appointments \<longrightarrow>
           (?b ''patientId'' = None \<or> has_id (patients seeded) (?b ''patientId'')) \<and>
           (?b ''providerId'' = None \<or> has_id (providers seeded) (?b ''providerId''))"
    by simp
  note merge = put_shallow_merge [OF found surjective_pairing, of ?b]
  from merge have frame:
    "\<forall>key. ?b key = None \<longrightarrow> (store Patients ?s' ! 0) key = (store Patients seeded ! 0) key"
    by blast
  from merge free have answer:
    "fst (dispatch (Put Patients ''pat1'' ?b) seeded)
       = (200, Record (store Patients seeded ! 0 ++ ?b))"
    by blast
  from merge free have new:
    "\<forall>key v. ?b key = Some v \<longrightarrow> (store Patients ?s' ! 0) key = Some v"
    by blast
  from merge have noop: "dispatch (Put Patients ''pat1'' Map.empty) seeded
     = ((200, Record (store Patients seeded ! 0)), seeded)"
    by blast
  have "?b ''firstName'' = None" by simp
  with frame have "(store Patients ?s' ! 0) ''firstName'' = (store Patients seeded ! 0) ''firstName''"
    by blast
  moreover have "(store Patients seeded ! 0) ''firstName'' = Some (JStr ''Frank'')"
    by (simp add: seeded_def)
  ultimately have kept: "(store Patients ?s' ! 0) ''firstName'' = Some (JStr ''Frank'')"
    by (rule trans)
  have "?b ''email'' = Some (JStr ''new@x.com'')" by simp
  with new have "(store Patients ?s' ! 0) ''email'' = Some (JStr ''new@x.com'')"
    by blast
  with answer kept noop show ?thesis by blast
qed

text \<open>
  C9. Under the same conditions (the record exists; on appointments the supplied
  references resolve), a payload with an \<open>id\<close> key, whatever its value \<open>v\<close>, makes the
  answer's record and the stored record carry \<open>v\<close> as their \<open>id\<close>: the store's
  identifiers after the update are those before with \<open>v\<close> at the record's index. Nothing
  is asked of \<open>v\<close>; the instance below gives two providers the same identifier.
\<close>

theorem put_overwrites_id:
  assumes "index_of_id (store k s) rid = Some i"
    and "b ''id'' = Some v"
    and "k = Appointments \<longrightarrow>
           (b ''patientId'' = None \<or> has_id (patients s) (b ''patientId'')) \<and>
           (b ''providerId'' = None \<or> has_id (providers s) (b ''providerId''))"
    and "dispatch (Put k rid b) s = (resp, s')"
  shows "\<exists>m. resp = (200, Record m) \<and> m ''id'' = Some v \<and>
             length (store k s') = length (store k s) \<and> store k s' ! i = m \<and>
             ids (store k s') = (ids (store k s))[i := Some v]"
proof -
  from assms(4) have s': "s' = snd (dispatch (Put k rid b) s)"
    and resp: "resp = fst (dispatch (Put k rid b) s)"
    by simp_all
  have i: "i < length (store k s)"
    using index_of_id_SomeD [OF assms(1)] by simp
  show ?thesis
    using put_performed [OF assms(1) assms(3)] i assms(2)
    by (simp add: s' resp ids_def map_update)
qed

theorem put_overwrites_id_witness:
  "\<exists>m. fst (dispatch (Put Providers ''prov1''
            [''id'' \<mapsto> JStr ''prov2'', ''firstName'' \<mapsto> JStr ''Dr. Emily'',
             ''lastName'' \<mapsto> JStr ''White'', ''specialty'' \<mapsto> JStr ''General Practice''])
          seeded) = (200, Record m) \<and>
       m ''id'' = Some (JStr ''prov2'') \<and>
       ids (store Providers (snd (dispatch (Put Providers ''prov1''
            [''id'' \<mapsto> JStr ''prov2'', ''firstName'' \<mapsto> JStr ''Dr. Emily'',
             ''lastName'' \<mapsto> JStr ''White'', ''specialty'' \<mapsto> JStr ''General Practice''])
          seeded))) = [Some (JStr ''prov2''), Some (JStr ''prov2'')]"
proof -
  let ?b = "[''id'' \<mapsto> JStr ''prov2'', ''firstName'' \<mapsto> JStr ''Dr. Emily'',
             ''lastName'' \<mapsto> JStr ''White'', ''specialty'' \<mapsto> JStr ''General Practice'']"
  let ?s' = "snd (dispatch (Put Providers ''prov1'' ?b) seeded)"
  have found: "index_of_id (store Providers seeded) ''prov1'' = Some 0"
    by (simp add: index_of_id_def seeded_def)
  have supplied: "?b ''id'' = Some (JStr ''prov2'')"
    by simp
  have free: "Providers = Appointments \<longrightarrow>
           (?b ''patientId'' = None \<or> has_id (patients seeded) (?b ''patientId'')) \<and>
           (?b ''providerId'' = None \<or> has_id (providers seeded) (?b ''providerId''))"
    by simp
  have before: "ids (store Providers seeded) = [Some (JStr ''prov1''), Some (JStr ''prov2'')]"
    by (simp add: ids_def seeded_def)
  from put_overwrites_id [OF found supplied free surjective_pairing] obtain m where
    m: "fst (dispatch (Put Providers ''prov1'' ?b) seeded) = (200, Record m)"
      "m ''id'' = Some (JStr ''prov2'')"
      "ids (store Providers ?s') = (ids (store Providers seeded))[0 := Some (JStr ''prov2'')]"
    by blast
  have "(ids (store Providers seeded))[0 := Some (JStr ''prov2'')]
          = [Some (JStr ''prov2''), Some (JStr ''prov2'')]"
    unfolding before by simp
  with m(3) have "ids (store Providers ?s') = [Some (JStr ''prov2''), Some (JStr ''prov2'')]"
    by (rule trans)
  with m(1) m(2) show ?thesis by blast
qed

section \<open>Deleting a record\<close>

text \<open>
  C10. Let \<open>rid\<close> be the identifier of some record of store \<open>k\<close>. Deleting it answers
  204 with an empty body and removes the record at the first index \<open>i\<close> whose \<open>id\<close> is
  \<open>rid\<close>: no earlier record has that \<open>id\<close>, the store after is the records before \<open>i\<close>
  followed by the records after \<open>i\<close>, in their order, so it is one shorter, and the other
  two stores are untouched. The number of records with that \<open>id\<close> goes down by exactly
  one; when there were two or more, the store after still has a record with that \<open>id\<close>.
\<close>

theorem delete_removes_first_match:
  assumes "has_id (store k s) (Some (JStr rid))"
    and "dispatch (Delete k rid) s = (resp, s')"
  shows "\<exists>i. index_of_id (store k s) rid = Some i \<and> i < length (store k s) \<and>
             strict_eq ((store k s ! i) ''id'') (Some (JStr rid)) \<and>
             (\<forall>j<i. \<not> strict_eq ((store k s ! j) ''id'') (Some (JStr rid))) \<and>
             resp = (204, Empty) \<and>
             store k s' = take i (store k s) @ drop (Suc i) (store k s) \<and>
             Suc (length (store k s')) = length (store k s) \<and>
             (\<forall>k'. k' \<noteq> k \<longrightarrow> store k' s' = store k' s) \<and>
             length (filter (\<lambda>p. strict_eq (p ''id'') (Some (JStr rid))) (store k s'))
               = length (filter (\<lambda>p. strict_eq (p ''id'') (Some (JStr rid))) (store k s)) - 1 \<and>
             (1 < length (filter (\<lambda>p. strict_eq (p ''id'') (Some (JStr rid))) (store k s))
                \<longrightarrow> has_id (store k s') (Some (JStr rid)))"
proof -
  let ?P = "\<lambda>p. strict_eq (p ''id'') (Some (JStr rid))"
  from assms(1) obtain i where i: "index_of_id (store k s) rid = Some i"
    using index_of_id_None_iff by fastforce
  note first = index_of_id_SomeD [OF i]
  from assms(2) have s': "s' = snd (dispatch (Delete k rid) s)"
    and resp: "resp = fst (dispatch (Delete k rid) s)"
    by simp_all
  have r: "resp = (204, Empty)"
    using i by (simp add: resp dispatch_delete)
  have st: "store k s' = splice1 (store k s) i"
    and other: "\<forall>k'. k' \<noteq> k \<longrightarrow> store k' s' = store k' s"
    using store_after_delete [OF i] by (simp_all add: s')
  have len: "Suc (length (store k s')) = length (store k s)"
    using first by (simp add: st length_splice1)
  have flt: "filter ?P (store k s') = tl (filter ?P (store k s))"
    using i by (simp add: st index_of_id_def filter_splice1)
  have cnt: "length (filter ?P (store k s')) = length (filter ?P (store k s)) - 1"
    by (simp add: flt)
  have dup: "1 < length (filter ?P (store k s)) \<longrightarrow> has_id (store k s') (Some (JStr rid))"
    using cnt by (auto simp add: has_id_filter)
  from i first r st len other cnt dup show ?thesis
    by (simp add: splice1_def)
qed

theorem delete_removes_first_match_witness:
  "fst (dispatch (Delete Patients ''pat1'') seeded) = (204, Empty) \<and>
   store Patients (snd (dispatch (Delete Patients ''pat1'') seeded))
     = [store Patients seeded ! 1] \<and>
   store Providers (snd (dispatch (Delete Patients ''pat1'') seeded)) = store Providers seeded \<and>
   store Appointments (snd (dispatch (Delete Patients ''pat1'') seeded))
     = store Appointments seeded \<and>
   has_id
     (store Providers
       (snd (dispatch (Delete Providers ''prov2'')
         (run [Put Providers ''prov1'' [''id'' \<mapsto> JStr ''prov2'']] seeded))))
     (Some (JStr ''prov2''))"
proof -
  let ?s' = "snd (dispatch (Delete Patients ''pat1'') seeded)"
  have present: "has_id (store Patients seeded) (Some (JStr ''pat1''))"
    by (simp add: has_id_def seeded_def)
  have first: "index_of_id (store Patients seeded) ''pat1'' = Some 0"
    by (simp add: index_of_id_def seeded_def)
  from delete_removes_first_match [OF present surjective_pairing] obtain i where
    i: "index_of_id (store Patients seeded) ''pat1'' = Some i"
      "fst (dispatch (Delete Patients ''pat1'') seeded) = (204, Empty)"
      "store Patients ?s' = take i (store Patients seeded) @ drop (Suc i) (store Patients seeded)"
      "\<forall>k'. k' \<noteq> Patients \<longrightarrow> store k' ?s' = store k' seeded"
    by (elim exE conjE)
  from i(1) first have "i = 0" by simp
  with i(3) have "store Patients ?s'
      = take 0 (store Patients seeded) @ drop (Suc 0) (store Patients seeded)"
    by simp
  also have "\<dots> = [store Patients seeded ! 1]"
    by (simp add: seeded_def)
  finally have rest: "store Patients ?s' = [store Patients seeded ! 1]" .
  have others: "store Providers ?s' = store Providers seeded"
    "store Appointments ?s' = store Appointments seeded"
    using i(4) [rule_format, of Providers] i(4) [rule_format, of Appointments]
    by simp_all
  let ?two = "run [Put Providers ''prov1'' [''id'' \<mapsto> JStr ''prov2'']] seeded"
  have twice: "length (filter (\<lambda>p. strict_eq (p ''id'') (Some (JStr ''prov2'')))
                  (store Providers ?two)) = 2"
    by (simp add: providers_put_def index_of_id_def seeded_def Let_def map_add_def)
  then have "filter (\<lambda>p. strict_eq (p ''id'') (Some (JStr ''prov2'')))
               (store Providers ?two) \<noteq> []"
    by (rule_tac notI) (simp del: run.simps store.simps)
  then have some: "has_id (store Providers ?two) (Some (JStr ''prov2''))"
    unfolding has_id_filter .
  from delete_removes_first_match [OF some surjective_pairing] have
    "1 < length (filter (\<lambda>p. strict_eq (p ''id'') (Some (JStr ''prov2'')))
                   (store Providers ?two)) \<longrightarrow>
     has_id (store Providers (snd (dispatch (Delete Providers ''prov2'') ?two)))
       (Some (JStr ''prov2''))"
    by (elim exE conjE)
  with twice have remains:
    "has_id (store Providers (snd (dispatch (Delete Providers ''prov2'') ?two)))
       (Some (JStr ''prov2''))"
    by (simp del: run.simps store.simps dispatch.simps)
  from i(2) rest others remains show ?thesis
    by (intro conjI)
qed

text \<open>
  C8, as the claim states it, fails in a state that the documented requests reach: the
  provider schema of \<open>PUT /providers/{id}\<close> carries an \<open>id\<close>, and the handler stores it
  (C9). After \<open>PUT /providers/prov1\<close> with \<open>id: "prov2"\<close> two providers have the
  identifier \<open>prov2\<close>; the first \<open>DELETE /providers/prov2\<close> answers 204 and so does the
  second, which the claim says answers 404.
\<close>

theorem delete_twice_counterexample:
  "fst (dispatch (Delete Providers ''prov2'')
         (run [Put Providers ''prov1''
                 [''id'' \<mapsto> JStr ''prov2'', ''firstName'' \<mapsto> JStr ''Dr. Emily'',
                  ''lastName'' \<mapsto> JStr ''White'', ''specialty'' \<mapsto> JStr ''General Practice'']]
            seeded)) = (204, Empty) \<and>
   fst (dispatch (Delete Providers ''prov2'')
         (run [Put Providers ''prov1''
                 [''id'' \<mapsto> JStr ''prov2'', ''firstName'' \<mapsto> JStr ''Dr. Emily'',
                  ''lastName'' \<mapsto> JStr ''White'', ''specialty'' \<mapsto> JStr ''General Practice''],
               Delete Providers ''prov2'']
            seeded)) = (204, Empty) \<and>
   fst (dispatch (Delete Providers ''prov2'')
         (run [Put Providers ''prov1''
                 [''id'' \<mapsto> JStr ''prov2'', ''firstName'' \<mapsto> JStr ''Dr. Emily'',
                  ''lastName'' \<mapsto> JStr ''White'', ''specialty'' \<mapsto> JStr ''General Practice''],
               Delete Providers ''prov2'']
            seeded)) \<noteq> (404, Error (not_found_code Providers))"
  by (simp add: providers_put_def providers_delete_def index_of_id_def seeded_def splice1_def
      Let_def map_add_def)

text \<open>
  C8, amended. For every store and every state in which exactly one record has the
  identifier, deleting that identifier twice in succession answers 204 the first time
  and 404 with the store's not-found code the second time.
\<close>

theorem delete_twice:
  assumes "length (filter (\<lambda>p. strict_eq (p ''id'') (Some (JStr rid))) (store k s)) = 1"
  shows "fst (dispatch (Delete k rid) s) = (204, Empty) \<and>
         fst (dispatch (Delete k rid) (snd (dispatch (Delete k rid) s)))
           = (404, Error (not_found_code k))"
proof -
  let ?P = "\<lambda>p. strict_eq (p ''id'') (Some (JStr rid))"
  from assms have "filter ?P (store k s) \<noteq> []" by auto
  then have "index_of_id (store k s) rid \<noteq> None"
    by (simp add: index_of_id_def findIndex_None_filter)
  then obtain i where i: "index_of_id (store k s) rid = Some i"
    by blast
  have first: "fst (dispatch (Delete k rid) s) = (204, Empty)"
    using i by (simp add: dispatch_delete)
  have "filter ?P (store k (snd (dispatch (Delete k rid) s))) = tl (filter ?P (store k s))"
    using i by (simp add: store_after_delete [OF i] index_of_id_def filter_splice1)
  with assms have "filter ?P (store k (snd (dispatch (Delete k rid) s))) = []"
    by (cases "filter ?P (store k s)") simp_all
  then have "index_of_id (store k (snd (dispatch (Delete k rid) s))) rid = None"
    by (simp add: index_of_id_def findIndex_None_filter)
  then have "fst (dispatch (Delete k rid) (snd (dispatch (Delete k rid) s)))
           = (404, Error (not_found_code k))"
    by (simp add: dispatch_delete)
  with first show ?thesis by simp
qed

theorem delete_twice_witness:
  "fst (dispatch (Delete Providers ''prov1'') seeded) = (204, Empty) \<and>
   fst (dispatch (Delete Providers ''prov1'') (snd (dispatch (Delete Providers ''prov1'') seeded)))
     = (404, Error ''PROVIDER_NOT_FOUND'')"
proof -
  have once: "length (filter (\<lambda>p. strict_eq (p ''id'') (Some (JStr ''prov1'')))
                 (store Providers seeded)) = 1"
    by (simp add: seeded_def)
  have code: "not_found_code Providers = ''PROVIDER_NOT_FOUND''"
    by simp
  from delete_twice [OF once] show ?thesis
    unfolding code .
qed

section \<open>Identifiers assigned by creation\<close>

text \<open>
  The decimal rendering is injective, so in a store whose records are numbered
  \<open>1, 2, \<dots>\<close> in order, as the seeded stores are and as creation keeps them while
  nothing is deleted, the next number names no record of the store.
\<close>

lemma string_of_nat_not_Nil: "string_of_nat n \<noteq> []"
  by (subst string_of_nat.simps) simp

lemma digit_inj: "a < 10 \<Longrightarrow> b < 10 \<Longrightarrow> digit a = digit b \<Longrightarrow> a = b"
proof -
  assume a: "a < 10" and b: "b < 10" and eq: "digit a = digit b"
  have d: "distinct ''0123456789''" by simp
  have l: "length ''0123456789'' = 10" by simp
  from eq have "''0123456789'' ! a = ''0123456789'' ! b"
    by (simp only: digit_def)
  with d a b l show "a = b"
    by (simp only: nth_eq_iff_index_eq)
qed

lemma string_of_nat_inj: "string_of_nat n = string_of_nat m \<Longrightarrow> n = m"
proof (induction n arbitrary: m rule: string_of_nat.induct)
  case (1 n)
  show ?case
  proof (cases "n < 10")
    case small_n: True
    show ?thesis
    proof (cases "m < 10")
      case True
      with small_n "1.prems" have "digit n = digit m"
        by (simp add: string_of_nat.simps [of n] string_of_nat.simps [of m])
      with small_n True show ?thesis by (rule digit_inj)
    next
      case False
      with small_n "1.prems" have "[digit n] = string_of_nat (m div 10) @ [digit (m mod 10)]"
        by (simp add: string_of_nat.simps [of n] string_of_nat.simps [of m])
      then have "string_of_nat (m div 10) = []" by simp
      then show ?thesis by (simp add: string_of_nat_not_Nil)
    qed
  next
    case big_n: False
    show ?thesis
    proof (cases "m < 10")
      case True
      with big_n "1.prems" have "string_of_nat (n div 10) @ [digit (n mod 10)] = [digit m]"
        by (simp add: string_of_nat.simps [of n] string_of_nat.simps [of m])
      then have "string_of_nat (n div 10) = []" by simp
      then show ?thesis by (simp add: string_of_nat_not_Nil)
    next
      case False
      with big_n "1.prems" have
        "string_of_nat (n div 10) @ [digit (n mod 10)]
           = string_of_nat (m div 10) @ [digit (m mod 10)]"
        by (simp add: string_of_nat.simps [of n] string_of_nat.simps [of m])
      then have front: "string_of_nat (n div 10) = string_of_nat (m div 10)"
        and last: "digit (n mod 10) = digit (m mod 10)"
        by simp_all
      from "1.IH" [OF big_n front] have q: "n div 10 = m div 10" .
      have "n mod 10 < 10" "m mod 10 < 10" by simp_all
      then have r: "n mod 10 = m mod 10"
        using last by (rule digit_inj)
      from q r show ?thesis
        by (metis div_mult_mod_eq)
    qed
  qed
qed

lemma numbered_next_fresh:
  assumes "ids xs = map (\<lambda>n. Some (JStr (pre @ string_of_nat (Suc n)))) [0..<length xs]"
  shows "Some (JStr (pre @ string_of_nat (length xs + 1))) \<notin> set (ids xs)"
proof
  assume "Some (JStr (pre @ string_of_nat (length xs + 1))) \<in> set (ids xs)"
  with assms obtain n where n: "n < length xs"
    and "pre @ string_of_nat (length xs + 1) = pre @ string_of_nat (Suc n)"
    by auto
  then have "string_of_nat (length xs + 1) = string_of_nat (Suc n)"
    by simp
  then have "length xs + 1 = Suc n"
    by (rule string_of_nat_inj)
  with n show False by simp
qed

lemma patients_post_fresh_when_numbered:
  assumes "ids (patients s)
             = map (\<lambda>n. Some (JStr (''pat'' @ string_of_nat (Suc n)))) [0..<length (patients s)]"
    and "patients_post b s = ((201, Record r), s')"
  shows "r ''id'' \<notin> set (ids (patients s))"
proof -
  from assms(2) have "r ''id'' = Some (JStr (''pat'' @ string_of_nat (length (patients s) + 1)))"
    by (auto simp add: patients_post_def Let_def split: if_splits)
  with numbered_next_fresh [OF assms(1)] show ?thesis
    by simp
qed

text \<open>
  C1. On the seeded stores, \<open>DELETE /patients/pat1\<close> followed by \<open>POST /patients\<close> with a
  valid payload: the store has one record left, \<open>pat2\<close>, so the new record is given
  \<open>"pat" + (1 + 1)\<close>, and the store then holds two records with the identifier \<open>pat2\<close>.
\<close>

theorem create_after_delete_reuses_id:
  "ids (store Patients
     (run [Delete Patients ''pat1'',
           Post Patients [''firstName'' \<mapsto> JStr ''Alice'', ''lastName'' \<mapsto> JStr ''Smith'',
                          ''dateOfBirth'' \<mapsto> JStr ''1990-01-01'']]
        seeded))
     = [Some (JStr ''pat2''), Some (JStr ''pat2'')] \<and>
   \<not> distinct (ids (store Patients
     (run [Delete Patients ''pat1'',
           Post Patients [''firstName'' \<mapsto> JStr ''Alice'', ''lastName'' \<mapsto> JStr ''Smith'',
                          ''dateOfBirth'' \<mapsto> JStr ''1990-01-01'']]
        seeded)))"
  by (simp add: patients_post_def patients_delete_def index_of_id_def seeded_def splice1_def
      Let_def ids_def string_of_nat.simps digit_def)

end
